theory Spec2Isabelle
  imports Complex_Main
begin

section \<open>ASGI data: bytes, events, scope\<close>

text \<open>
  The development embeds \<^verbatim>\<open>fastapi_better_mixed_server_asgi.py\<close>: the class
  \<^verbatim>\<open>ProtobufToJsonMiddleware\<close> with its two closures \<^verbatim>\<open>new_receive\<close> and
  \<^verbatim>\<open>new_send\<close>, and the endpoint \<^verbatim>\<open>summarize_classroom\<close>.

  Python \<^verbatim>\<open>bytes\<close> are lists of 8-bit characters. An ASGI event is a dictionary; the
  keys the middleware reads are fields of a record, optional where the code reads them with
  \<^verbatim>\<open>.get\<close> or where a missing key raises \<^verbatim>\<open>KeyError\<close>.
\<close>

type_synonym bytes = string

record message =
  msg_type :: string
  msg_body :: "bytes option"
  msg_more_body :: "bool option"
  msg_status :: "nat option"
  msg_headers :: "(bytes \<times> bytes) list option"

record scope =
  scope_type :: string
  scope_headers :: "(bytes \<times> bytes) list"
  scope_path :: string

text \<open>
  Exceptions are values. \<open>LibraryError\<close> is an exception raised inside a library call
  (the protobuf classes, \<^verbatim>\<open>json\<close>); the libraries never raise \<^verbatim>\<open>HTTPException\<close>.
\<close>

datatype exn =
    HTTPException nat string
  | AttributeError string
  | KeyError string
  | TypeError string
  | ZeroDivisionError
  | LibraryError string

subsection \<open>Python built-ins used by the middleware\<close>

text \<open>\<^verbatim>\<open>bytes.lower()\<close>: the ASCII letters A..Z are mapped to a..z, every other byte stays.\<close>

definition lower_byte :: "char \<Rightarrow> char" where
  "lower_byte c =
     (let n = (of_char c :: nat) in if 65 \<le> n \<and> n \<le> 90 then char_of (n + 32) else c)"

definition lower :: "bytes \<Rightarrow> bytes" where
  "lower b = map lower_byte b"

text \<open>\<^verbatim>\<open>str(n).encode("utf-8")\<close> for a length \<open>n\<close>: its decimal digits.\<close>

definition digit :: "nat \<Rightarrow> char" where
  "digit d = char_of (48 + d)"

fun str :: "nat \<Rightarrow> bytes" where
  "str n = (if n < 10 then [digit n] else str (n div 10) @ [digit (n mod 10)])"

declare str.simps [simp del]

text \<open>
  \<^verbatim>\<open>dict(pairs).get(k)\<close>: building a dictionary from a list of pairs keeps, for a key
  that occurs several times, the value of its last occurrence.
\<close>

definition dict_get :: "('k \<times> 'v) list \<Rightarrow> 'k \<Rightarrow> 'v option" where
  "dict_get pairs k = map_of (rev pairs) k"

text \<open>Truth value of an optional \<^verbatim>\<open>bytes\<close>: \<^verbatim>\<open>None\<close> and \<^verbatim>\<open>b""\<close> are false.\<close>

definition truthy :: "bytes option \<Rightarrow> bool" where
  "truthy v = (case v of None \<Rightarrow> False | Some b \<Rightarrow> b \<noteq> [])"

subsection \<open>The server side of one connection\<close>

text \<open>
  \<^verbatim>\<open>receive\<close> and \<^verbatim>\<open>send\<close> are the server's callables for one request. The state of
  a connection is the queue of events \<^verbatim>\<open>receive\<close> will still deliver and the log of the
  events passed to \<^verbatim>\<open>send\<close>, oldest first. Once the queue is empty the client has gone and
  \<^verbatim>\<open>receive\<close> answers \<^verbatim>\<open>http.disconnect\<close>.
\<close>

record conn =
  inbox :: "message list"
  sent :: "message list"

definition http_disconnect :: message where
  "http_disconnect =
     \<lparr>msg_type = ''http.disconnect'', msg_body = None, msg_more_body = None,
      msg_status = None, msg_headers = None\<rparr>"

definition receive :: "conn \<Rightarrow> message \<times> conn" where
  "receive c =
     (case inbox c of
        [] \<Rightarrow> (http_disconnect, c)
      | m # ms \<Rightarrow> (m, c\<lparr>inbox := ms\<rparr>))"

definition send :: "message \<Rightarrow> conn \<Rightarrow> conn" where
  "send m c = c\<lparr>sent := sent c @ [m]\<rparr>"

subsection \<open>The downstream application\<close>

text \<open>
  \<^verbatim>\<open>self.app\<close> is any ASGI application: a coroutine that, given the scope, awaits
  \<^verbatim>\<open>receive()\<close> and \<^verbatim>\<open>send(message)\<close> in an order of its choice and then returns or
  raises. It is a tree of these interactions. An exception raised by \<^verbatim>\<open>send\<close> is not
  caught by the application: it ends the call.
\<close>

datatype app =
    Return
  | Raise exn
  | Receive "message \<Rightarrow> app"
  | Send message app

text \<open>The application run directly on the server's callables, without the middleware.\<close>

primrec run_bare :: "app \<Rightarrow> conn \<Rightarrow> (exn + unit) \<times> conn" where
  "run_bare Return c = (Inr (), c)"
| "run_bare (Raise e) c = (Inl e, c)"
| "run_bare (Receive k) c = (case receive c of (m, c') \<Rightarrow> run_bare (k m) c')"
| "run_bare (Send m p) c = run_bare p (send m c)"

section \<open>The libraries the middleware calls\<close>

text \<open>
  The protobuf classes (\<^verbatim>\<open>betterproto_pb.school\<close>, \<^verbatim>\<open>betterproto\<close>) and \<^verbatim>\<open>json\<close>
  are not part of the sources; the middleware is parametric in them. \<open>'h\<close> is the type of
  the objects found as type hints of an endpoint, \<open>'p\<close> of message instances, \<open>'j\<close> of
  the values \<^verbatim>\<open>json.loads\<close> returns.
  \<^item> \<open>has_FromString h\<close>: \<^verbatim>\<open>hasattr(h, "FromString")\<close>;
  \<^item> \<open>FromString h b\<close>: \<^verbatim>\<open>h.FromString(b)\<close>;
  \<^item> \<open>to_json p\<close>: \<^verbatim>\<open>json.dumps(p.to_dict(betterproto.Casing.SNAKE)).encode("utf-8")\<close>;
  \<^item> \<open>json_loads b\<close>: \<^verbatim>\<open>json.loads(b.decode("utf-8"))\<close>;
  \<^item> \<open>construct h j\<close>: \<^verbatim>\<open>h(**j)\<close>;
  \<^item> \<open>SerializeToString p\<close>: \<^verbatim>\<open>p.SerializeToString()\<close>.
  Each may raise; the error is the string of a \<open>LibraryError\<close>.
\<close>

record ('h, 'p, 'j) lib =
  has_FromString :: "'h \<Rightarrow> bool"
  FromString :: "'h \<Rightarrow> bytes \<Rightarrow> string + 'p"
  to_json :: "'p \<Rightarrow> string + bytes"
  json_loads :: "bytes \<Rightarrow> string + 'j"
  construct :: "'h \<Rightarrow> 'j \<Rightarrow> string + 'p"
  SerializeToString :: "'p \<Rightarrow> string + bytes"

text \<open>
  A route of \<^verbatim>\<open>app.routes\<close>: whether it is an \<^verbatim>\<open>APIRoute\<close>, its path, and the result
  of \<^verbatim>\<open>get_type_hints\<close> on its endpoint, a dictionary in the order of the signature
  (parameters, then \<^verbatim>\<open>"return"\<close> when the endpoint declares a return type).
\<close>

record 'h route =
  is_APIRoute :: bool
  route_path :: string
  type_hints :: "(string \<times> 'h) list"

section \<open>The middleware\<close>

text \<open>The instance attribute \<^verbatim>\<open>self.start_message\<close>; unset until the first assignment.\<close>

record middleware =
  start_message :: "message option"

subsection \<open>\<^verbatim>\<open>new_receive\<close>\<close>

definition http_request :: "bytes \<Rightarrow> bool \<Rightarrow> message" where
  "http_request b mb =
     \<lparr>msg_type = ''http.request'', msg_body = Some b, msg_more_body = Some mb,
      msg_status = None, msg_headers = None\<rparr>"

definition new_receive :: "bool \<Rightarrow> bytes \<Rightarrow> conn \<Rightarrow> message \<times> conn" where
  "new_receive is_protobuf json_body c =
     (if \<not> is_protobuf then receive c else (http_request json_body False, c))"

subsection \<open>\<^verbatim>\<open>new_send\<close>\<close>

text \<open>
  Lines 50 to 52: the JSON body of the response becomes the bytes of a message.
  \<^verbatim>\<open>return_object\<close> is \<^verbatim>\<open>None\<close> until the request side has found the return type, and
  calling \<^verbatim>\<open>None\<close> raises.
\<close>

definition translate_body :: "('h, 'p, 'j) lib \<Rightarrow> 'h option \<Rightarrow> bytes \<Rightarrow> exn + bytes" where
  "translate_body L return_object json_body =
     (case json_loads L json_body of
        Inl e \<Rightarrow> Inl (LibraryError e)
      | Inr response_data \<Rightarrow>
          (case return_object of
             None \<Rightarrow> Inl (TypeError ''NoneType object is not callable'')
           | Some ro \<Rightarrow>
              (case construct L ro response_data of
                 Inl e \<Rightarrow> Inl (LibraryError e)
               | Inr proto_response \<Rightarrow>
                  (case SerializeToString L proto_response of
                     Inl e \<Rightarrow> Inl (LibraryError e)
                   | Inr proto_body \<Rightarrow> Inr proto_body))))"

text \<open>Lines 55 to 65: the header list sent in place of the stored one.\<close>

definition rewrite_headers :: "(bytes \<times> bytes) list \<Rightarrow> bytes \<Rightarrow> (bytes \<times> bytes) list" where
  "rewrite_headers hs proto_body =
     filter (\<lambda>(k, v). lower k \<notin> set [''content-type'', ''content-length'']) hs
     @ [(''content-length'', str (length proto_body)),
        (''content-type'', ''application/x-protobuf'')]"

definition response_body :: "bytes \<Rightarrow> message" where
  "response_body proto_body =
     \<lparr>msg_type = ''http.response.body'', msg_body = Some proto_body,
      msg_more_body = Some False, msg_status = None, msg_headers = None\<rparr>"

text \<open>
  Lines 42 to 77. On the protobuf path a start event is stored on the instance and nothing
  is sent; a body event is translated and answered by two \<^verbatim>\<open>send\<close> calls; any other
  event, and every event off the protobuf path, goes to \<^verbatim>\<open>send\<close> as it is.
\<close>

definition new_send ::
  "bool \<Rightarrow> 'h option \<Rightarrow> ('h, 'p, 'j) lib \<Rightarrow> message \<Rightarrow> middleware \<times> conn
     \<Rightarrow> (exn + unit) \<times> middleware \<times> conn" where
  "new_send is_protobuf return_object L m s =
     (case s of (self, c) \<Rightarrow>
      if is_protobuf \<and> msg_type m = ''http.response.start'' then
        (Inr (), self\<lparr>start_message := Some m\<rparr>, c)
      else if is_protobuf \<and> msg_type m = ''http.response.body'' then
        (case msg_body m of
           None \<Rightarrow> (Inl (KeyError ''body''), self, c)
         | Some json_body \<Rightarrow>
            (case translate_body L return_object json_body of
               Inl e \<Rightarrow> (Inl e, self, c)
             | Inr proto_body \<Rightarrow>
                (case start_message self of
                   None \<Rightarrow> (Inl (AttributeError ''start_message''), self, c)
                 | Some sm \<Rightarrow>
                    (case msg_headers sm of
                       None \<Rightarrow> (Inl (KeyError ''headers''), self, c)
                     | Some hs \<Rightarrow>
                        (Inr (), self,
                         send (response_body proto_body)
                           (send (sm\<lparr>msg_headers := Some (rewrite_headers hs proto_body)\<rparr>)
                              c))))))
      else (Inr (), self, send m c))"

subsection \<open>The downstream application under \<^verbatim>\<open>new_receive\<close> and \<^verbatim>\<open>new_send\<close>\<close>

primrec run_app ::
  "bool \<Rightarrow> bytes \<Rightarrow> 'h option \<Rightarrow> ('h, 'p, 'j) lib \<Rightarrow> app \<Rightarrow> middleware \<times> conn
     \<Rightarrow> (exn + unit) \<times> middleware \<times> conn" where
  "run_app is_protobuf json_body return_object L Return s = (Inr (), s)"
| "run_app is_protobuf json_body return_object L (Raise e) s = (Inl e, s)"
| "run_app is_protobuf json_body return_object L (Receive k) s =
     (case new_receive is_protobuf json_body (snd s) of
        (m, c') \<Rightarrow> run_app is_protobuf json_body return_object L (k m) (fst s, c'))"
| "run_app is_protobuf json_body return_object L (Send m p) s =
     (case new_send is_protobuf return_object L m s of
        (Inl e, s') \<Rightarrow> (Inl e, s')
      | (Inr u, s') \<Rightarrow> run_app is_protobuf json_body return_object L p s')"

subsection \<open>\<^verbatim>\<open>__call__\<close>\<close>

text \<open>Lines 79 to 82: the test that sets \<^verbatim>\<open>is_protobuf\<close>.\<close>

definition is_protobuf_request :: "scope \<Rightarrow> bool" where
  "is_protobuf_request sc =
     (scope_type sc = ''http'' \<and> scope_headers sc \<noteq> [] \<and>
      (let content_type = dict_get (scope_headers sc) ''content-type''
       in truthy content_type \<and> content_type = Some ''application/x-protobuf''))"

text \<open>Lines 85 to 90: the request body is read until an event without \<^verbatim>\<open>more_body\<close>.\<close>

fun drain :: "bytes \<Rightarrow> message list \<Rightarrow> bytes \<times> message list" where
  "drain body [] = (body, [])"
| "drain body (m # ms) =
     (let body' = body @ (case msg_body m of None \<Rightarrow> [] | Some b \<Rightarrow> b)
      in if (case msg_more_body m of None \<Rightarrow> False | Some b \<Rightarrow> b)
         then drain body' ms else (body', ms))"

text \<open>Lines 92 to 97: the first \<^verbatim>\<open>APIRoute\<close> whose path is the request's path.\<close>

definition find_route :: "'h route list \<Rightarrow> string \<Rightarrow> 'h route option" where
  "find_route routes p = find (\<lambda>r. is_APIRoute r \<and> route_path r = p) routes"

text \<open>Lines 116 to 118.\<close>

definition update_scope_headers :: "(bytes \<times> bytes) list \<Rightarrow> (bytes \<times> bytes) list" where
  "update_scope_headers hs =
     map (\<lambda>(k, v). if k \<noteq> ''content-type'' then (k, v) else (k, ''application/json'')) hs"

text \<open>
  Lines 26 to 121. An exception raised before line 121 leaves \<^verbatim>\<open>__call__\<close> at once:
  the downstream application is not called and nothing is sent.
\<close>

definition call ::
  "'h route list \<Rightarrow> ('h, 'p, 'j) lib \<Rightarrow> (scope \<Rightarrow> app) \<Rightarrow> middleware \<Rightarrow> scope \<Rightarrow> conn
     \<Rightarrow> (exn + unit) \<times> middleware \<times> conn" where
  "call routes L downstream self sc c =
     (if is_protobuf_request sc then
        (case drain [] (inbox c) of (body, rest) \<Rightarrow>
          (case find_route routes (scope_path sc) of
             None \<Rightarrow> (Inl (HTTPException 404 ''Endpoint not found''), self, c\<lparr>inbox := rest\<rparr>)
           | Some route \<Rightarrow>
              (case map_of (type_hints route) ''return'' of
                 None \<Rightarrow>
                   (Inl (HTTPException 400
                           ''Protobuf message type not found in endpoint signature''),
                    self, c\<lparr>inbox := rest\<rparr>)
               | Some return_object \<Rightarrow>
                  (case find (has_FromString L)
                          (map snd (filter (\<lambda>(n, h). n \<noteq> ''return'') (type_hints route))) of
                     None \<Rightarrow>
                       (Inl (HTTPException 400
                               ''Protobuf message type not found in endpoint signature''),
                        self, c\<lparr>inbox := rest\<rparr>)
                   | Some input_protobuf_class \<Rightarrow>
                      (case FromString L input_protobuf_class body of
                         Inl e \<Rightarrow> (Inl (LibraryError e), self, c\<lparr>inbox := rest\<rparr>)
                       | Inr proto_object \<Rightarrow>
                          (case to_json L proto_object of
                             Inl e \<Rightarrow> (Inl (LibraryError e), self, c\<lparr>inbox := rest\<rparr>)
                           | Inr json_body \<Rightarrow>
                              run_app True json_body (Some return_object) L
                                (downstream
                                   (sc\<lparr>scope_headers :=
                                         update_scope_headers (scope_headers sc)\<rparr>))
                                (self, c\<lparr>inbox := rest\<rparr>)))))))
      else run_app False [] None L (downstream sc) (self, c))"

section \<open>The endpoint\<close>

text \<open>
  The messages of \<^verbatim>\<open>betterproto_pb.school\<close>, with the fields the sources use
  (\<^verbatim>\<open>Student(name, avg_grade, dob)\<close>, \<^verbatim>\<open>Classroom(profile, students)\<close>,
  \<^verbatim>\<open>ClassStats(numstudents, grade)\<close>). Grades are Python floats, of a type \<open>'f\<close>; a
  date of birth is kept as microseconds since the epoch.
\<close>

record 'f student =
  name :: string
  avg_grade :: 'f
  dob :: int

record 'f classroom =
  profile :: string
  students :: "'f student list"

record 'f class_stats =
  numstudents :: int
  grade :: 'f

text \<open>
  Float arithmetic is a parameter: \<open>fsum xs\<close> is \<^verbatim>\<open>sum(xs)\<close> for a list of floats
  (the \<^verbatim>\<open>int\<close> 0 that \<^verbatim>\<open>sum\<close> returns for no elements counts as the float zero) and
  \<open>fdiv x n\<close> is \<^verbatim>\<open>x / n\<close> for an \<^verbatim>\<open>int\<close> \<open>n\<close> other than zero. On a zero divisor
  \<^verbatim>\<open>/\<close> raises \<^verbatim>\<open>ZeroDivisionError\<close>, whatever the dividend.
\<close>

record 'f float_ops =
  fsum :: "'f list \<Rightarrow> 'f"
  fdiv :: "'f \<Rightarrow> int \<Rightarrow> 'f"

definition truediv :: "'f float_ops \<Rightarrow> 'f \<Rightarrow> int \<Rightarrow> exn + 'f" where
  "truediv F x n = (if n = 0 then Inl ZeroDivisionError else Inr (fdiv F x n))"

text \<open>Lines 129 to 134.\<close>

definition summarize_classroom :: "'f float_ops \<Rightarrow> 'f classroom \<Rightarrow> exn + 'f class_stats" where
  "summarize_classroom F classroom =
     (case truediv F (fsum F (map avg_grade (students classroom)))
             (int (length (students classroom))) of
        Inl e \<Rightarrow> Inl e
      | Inr g \<Rightarrow> Inr \<lparr>numstudents = int (length (students classroom)), grade = g\<rparr>)"

section \<open>The application of the repository\<close>

text \<open>
  The type hints of the sources are the two message classes; a message instance is a
  classroom or its statistics.
\<close>

datatype hint = Classroom_cls | ClassStats_cls

datatype 'f pmsg = Classroom_msg "'f classroom" | ClassStats_msg "'f class_stats"

text \<open>
  \<^verbatim>\<open>app.routes\<close> once the module is loaded: the documentation routes every
  \<^verbatim>\<open>FastAPI()\<close> carries, which are no \<^verbatim>\<open>APIRoute\<close>, and the route of line 128, whose
  endpoint has the hints \<^verbatim>\<open>{"classroom": Classroom, "return": ClassStats}\<close>.
\<close>

definition app_routes :: "hint route list" where
  "app_routes =
     [\<lparr>is_APIRoute = False, route_path = ''/openapi.json'', type_hints = []\<rparr>,
      \<lparr>is_APIRoute = False, route_path = ''/docs'', type_hints = []\<rparr>,
      \<lparr>is_APIRoute = False, route_path = ''/docs/oauth2-redirect'', type_hints = []\<rparr>,
      \<lparr>is_APIRoute = False, route_path = ''/redoc'', type_hints = []\<rparr>,
      \<lparr>is_APIRoute = True, route_path = ''/classroom'',
       type_hints = [(''classroom'', Classroom_cls), (''return'', ClassStats_cls)]\<rparr>]"

text \<open>
  Modelled from the spec: the HTTP server's routing of \<^verbatim>\<open>POST /classroom\<close> to the handler,
  which line 128 asks of the framework and which is not in the sources. The handler
  "operates only in JSON": the route reads one request event and, when the request has no
  content-type header or its first one is a JSON media type, decodes the body as the JSON of
  a classroom, calls the endpoint and answers 200 with the JSON of the statistics. A body
  under another content-type, and a body that is no classroom, are answered 422, an unknown
  path 404, and an exception of the endpoint leaves the application. Which content-types are
  JSON, and the JSON decoding and encoding, are parameters.
\<close>

record 'f framework =
  json_media_type :: "bytes \<Rightarrow> bool"
  parse_classroom :: "bytes \<Rightarrow> string + 'f classroom"
  render_stats :: "'f class_stats \<Rightarrow> bytes"
  render_error :: "string \<Rightarrow> bytes"

definition response_start :: "nat \<Rightarrow> (bytes \<times> bytes) list \<Rightarrow> message" where
  "response_start st hs =
     \<lparr>msg_type = ''http.response.start'', msg_body = None, msg_more_body = None,
      msg_status = Some st, msg_headers = Some hs\<rparr>"

definition body_event :: "bytes \<Rightarrow> bool option \<Rightarrow> message" where
  "body_event b mb =
     \<lparr>msg_type = ''http.response.body'', msg_body = Some b, msg_more_body = mb,
      msg_status = None, msg_headers = None\<rparr>"

definition json_response :: "nat \<Rightarrow> bytes \<Rightarrow> app" where
  "json_response st b =
     Send (response_start st
             [(''content-length'', str (length b)), (''content-type'', ''application/json'')])
       (Send (body_event b None) Return)"

definition classroom_route :: "'f framework \<Rightarrow> 'f float_ops \<Rightarrow> scope \<Rightarrow> app" where
  "classroom_route W F sc =
     (if scope_path sc \<noteq> ''/classroom'' then json_response 404 (render_error W ''Not Found'')
      else Receive (\<lambda>m.
        if (case map_of (scope_headers sc) ''content-type'' of
              None \<Rightarrow> True
            | Some v \<Rightarrow> json_media_type W v)
        then
          (case parse_classroom W (case msg_body m of None \<Rightarrow> [] | Some b \<Rightarrow> b) of
             Inl e \<Rightarrow> json_response 422 (render_error W e)
           | Inr classroom \<Rightarrow>
              (case summarize_classroom F classroom of
                 Inl e \<Rightarrow> Raise e
               | Inr stats \<Rightarrow> json_response 200 (render_stats W stats)))
        else json_response 422 (render_error W ''Input should be a valid dictionary'')))"

section \<open>Observations\<close>

text \<open>
  What an application sends, and how it ends, when each of its \<^verbatim>\<open>receive()\<close> calls is
  answered by the same event \<open>ev\<close>.
\<close>

primrec events_under :: "message \<Rightarrow> app \<Rightarrow> message list \<times> (exn + unit)" where
  "events_under ev Return = ([], Inr ())"
| "events_under ev (Raise e) = ([], Inl e)"
| "events_under ev (Receive k) = events_under ev (k ev)"
| "events_under ev (Send m p) = (m # fst (events_under ev p), snd (events_under ev p))"

text \<open>A list of events passed to \<^verbatim>\<open>new_send\<close> one after the other, up to the first that raises.\<close>

fun send_all ::
  "bool \<Rightarrow> 'h option \<Rightarrow> ('h, 'p, 'j) lib \<Rightarrow> message list \<Rightarrow> middleware \<times> conn
     \<Rightarrow> (exn + unit) \<times> middleware \<times> conn" where
  "send_all is_protobuf return_object L [] s = (Inr (), s)"
| "send_all is_protobuf return_object L (m # ms) s =
     (case new_send is_protobuf return_object L m s of
        (Inl e, s') \<Rightarrow> (Inl e, s')
      | (Inr u, s') \<Rightarrow> send_all is_protobuf return_object L ms s')"

text \<open>A request body that arrives in the chunks \<open>bs\<close>: every event but the last announces more.\<close>

fun request_events :: "bytes list \<Rightarrow> message list" where
  "request_events [] = []"
| "request_events [b] = [http_request b False]"
| "request_events (b # bs) = http_request b True # request_events bs"

text \<open>The number a header value written in decimal digits denotes.\<close>

definition decimal :: "bytes \<Rightarrow> nat" where
  "decimal b = foldl (\<lambda>n c. 10 * n + (of_char c - 48)) 0 b"

section \<open>Many pulls, many requests\<close>

text \<open>The events that \<open>n\<close> successive calls of \<^verbatim>\<open>new_receive\<close> return.\<close>

fun pulls :: "bool \<Rightarrow> bytes \<Rightarrow> nat \<Rightarrow> conn \<Rightarrow> message list" where
  "pulls is_protobuf json_body 0 c = []"
| "pulls is_protobuf json_body (Suc n) c =
     (case new_receive is_protobuf json_body c of
        (m, c') \<Rightarrow> m # pulls is_protobuf json_body n c')"

text \<open>
  Two requests on the protobuf path handled by the one middleware instance of the
  application. Each has its own closure (its \<^verbatim>\<open>return_object\<close>) and its own connection;
  \<^verbatim>\<open>self\<close> is the same object for both. The schedule lists, in the order in which they
  happen, the \<^verbatim>\<open>new_send\<close> calls of the two downstream tasks: \<open>(False, m)\<close> is a call of
  the first request, \<open>(True, m)\<close> one of the second. A call that raises changes neither
  \<^verbatim>\<open>self\<close> nor a connection; the exception stays in the task of its request.
\<close>

fun interleave ::
  "('h, 'p, 'j) lib \<Rightarrow> 'h option \<Rightarrow> 'h option \<Rightarrow> (bool \<times> message) list
     \<Rightarrow> middleware \<times> conn \<times> conn \<Rightarrow> middleware \<times> conn \<times> conn" where
  "interleave L ro1 ro2 [] s = s"
| "interleave L ro1 ro2 ((second, m) # es) (self, c1, c2) =
     (if \<not> second then
        (case new_send True ro1 L m (self, c1) of
           (r, self', c1') \<Rightarrow> interleave L ro1 ro2 es (self', c1', c2))
      else
        (case new_send True ro2 L m (self, c2) of
           (r, self', c2') \<Rightarrow> interleave L ro1 ro2 es (self', c1, c2')))"

section \<open>An example: three students\<close>

text \<open>
  The classroom of \<^verbatim>\<open>fastapi_better_mixed_client.py\<close>, with grades whose mean is exact,
  and its statistics.
\<close>

definition example_classroom :: "real classroom" where
  "example_classroom =
     \<lparr>profile = ''Math'',
      students =
        [\<lparr>name = ''John'', avg_grade = 95.5, dob = 632361600000000\<rparr>,
         \<lparr>name = ''Jane'', avg_grade = 92.5, dob = 793238400000000\<rparr>,
         \<lparr>name = ''Jim'', avg_grade = 88, dob = 700185600000000\<rparr>]\<rparr>"

definition example_stats :: "real class_stats" where
  "example_stats = \<lparr>numstudents = 3, grade = 92\<rparr>"

definition real_ops :: "real float_ops" where
  "real_ops = \<lparr>fsum = sum_list, fdiv = (\<lambda>x n. x / of_int n)\<rparr>"

text \<open>
  Modelled from the spec: a Message Codec, for \<^verbatim>\<open>betterproto\<close>, \<^verbatim>\<open>json\<close> and the
  generated classes of \<^verbatim>\<open>betterproto_pb.school\<close>, none of which is in the sources. It
  knows the two messages above: their wire bytes (for a schema with
  \<^verbatim>\<open>string profile = 1; repeated Student students = 2\<close>,
  \<^verbatim>\<open>string name = 1; float avg_grade = 2; Timestamp dob = 3\<close> and
  \<^verbatim>\<open>int32 numstudents = 1; float grade = 2\<close>) and their JSON texts. As the spec asks of
  the codec, decoding inverts encoding and any other input fails explicitly.
\<close>

definition dq :: "string \<Rightarrow> string" where
  "dq s = CHR 0x22 # s @ [CHR 0x22]"

definition classroom_pb :: bytes where
  "classroom_pb =
     [CHR 0x0A, CHR 0x04, CHR 0x4D, CHR 0x61, CHR 0x74, CHR 0x68, CHR 0x12, CHR 0x13,
      CHR 0x0A, CHR 0x04, CHR 0x4A, CHR 0x6F, CHR 0x68, CHR 0x6E, CHR 0x15, CHR 0x00,
      CHR 0x00, CHR 0xBF, CHR 0x42, CHR 0x1A, CHR 0x06, CHR 0x08, CHR 0x80, CHR 0xA5,
      CHR 0xC4, CHR 0xAD, CHR 0x02, CHR 0x12, CHR 0x13, CHR 0x0A, CHR 0x04, CHR 0x4A,
      CHR 0x61, CHR 0x6E, CHR 0x65, CHR 0x15, CHR 0x00, CHR 0x00, CHR 0xB9, CHR 0x42,
      CHR 0x1A, CHR 0x06, CHR 0x08, CHR 0x80, CHR 0xB7, CHR 0x9F, CHR 0xFA, CHR 0x02,
      CHR 0x12, CHR 0x12, CHR 0x0A, CHR 0x03, CHR 0x4A, CHR 0x69, CHR 0x6D, CHR 0x15,
      CHR 0x00, CHR 0x00, CHR 0xB0, CHR 0x42, CHR 0x1A, CHR 0x06, CHR 0x08, CHR 0x80,
      CHR 0xF8, CHR 0xEF, CHR 0xCD, CHR 0x02]"

definition classroom_json :: bytes where
  "classroom_json =
     ''{'' @ dq ''profile'' @ '': '' @ dq ''Math'' @ '', '' @ dq ''students'' @
     '': [{'' @ dq ''name'' @ '': '' @ dq ''John'' @ '', '' @ dq ''avg_grade'' @
     '': 95.5, '' @ dq ''dob'' @ '': '' @ dq ''1990-01-15T00:00:00Z'' @ ''}, {'' @
     dq ''name'' @ '': '' @ dq ''Jane'' @ '', '' @ dq ''avg_grade'' @ '': 92.5, '' @
     dq ''dob'' @ '': '' @ dq ''1995-02-20T00:00:00Z'' @ ''}, {'' @ dq ''name'' @
     '': '' @ dq ''Jim'' @ '', '' @ dq ''avg_grade'' @ '': 88.0, '' @ dq ''dob'' @
     '': '' @ dq ''1992-03-10T00:00:00Z'' @ ''}]}''"

definition stats_json :: bytes where
  "stats_json =
     ''{'' @ dq ''numstudents'' @ '':3,'' @ dq ''grade'' @ '':92.0}''"

definition stats_pb :: bytes where
  "stats_pb =
     [CHR 0x08, CHR 0x03, CHR 0x15, CHR 0x00, CHR 0x00, CHR 0xB8, CHR 0x42]"

definition not_found_json :: bytes where
  "not_found_json =
     ''{'' @ dq ''detail'' @ '':'' @ dq ''Not Found'' @ ''}''"

definition example_lib :: "(hint, real pmsg, real pmsg) lib" where
  "example_lib =
     \<lparr>has_FromString = (\<lambda>h. True),
      FromString = (\<lambda>h b.
        if h = Classroom_cls \<and> b = classroom_pb then Inr (Classroom_msg example_classroom)
        else if h = ClassStats_cls \<and> b = stats_pb then Inr (ClassStats_msg example_stats)
        else Inl ''cannot parse the bytes''),
      to_json = (\<lambda>p.
        if p = Classroom_msg example_classroom then Inr classroom_json
        else if p = ClassStats_msg example_stats then Inr stats_json
        else Inl ''unknown message''),
      json_loads = (\<lambda>b.
        if b = classroom_json then Inr (Classroom_msg example_classroom)
        else if b = stats_json then Inr (ClassStats_msg example_stats)
        else Inl ''JSONDecodeError''),
      construct = (\<lambda>h j.
        case (h, j) of
          (Classroom_cls, Classroom_msg c) \<Rightarrow> Inr (Classroom_msg c)
        | (ClassStats_cls, ClassStats_msg s) \<Rightarrow> Inr (ClassStats_msg s)
        | _ \<Rightarrow> Inl ''unexpected keyword argument''),
      SerializeToString = (\<lambda>p.
        if p = Classroom_msg example_classroom then Inr classroom_pb
        else if p = ClassStats_msg example_stats then Inr stats_pb
        else Inl ''unknown message'')\<rparr>"

definition protobuf_scope :: scope where
  "protobuf_scope =
     \<lparr>scope_type = ''http'',
      scope_headers =
        [(''host'', ''127.0.0.1:8000''), (''accept'', ''*/*''),
         (''content-type'', ''application/x-protobuf''), (''content-length'', ''68'')],
      scope_path = ''/classroom''\<rparr>"

definition json_scope :: scope where
  "json_scope =
     \<lparr>scope_type = ''http'',
      scope_headers =
        [(''host'', ''127.0.0.1:8000''), (''accept'', ''*/*''),
         (''content-length'', ''236''), (''content-type'', ''application/json'')],
      scope_path = ''/classroom''\<rparr>"

text \<open>
  Modelled from the spec: the framework's JSON decoding and encoding for the route, which
  are not in the sources, on the two example messages.
\<close>

definition example_framework :: "real framework" where
  "example_framework =
     \<lparr>json_media_type = (\<lambda>v. v = ''application/json''),
      parse_classroom = (\<lambda>b.
        if b = classroom_json then Inr example_classroom else Inl ''validation error''),
      render_stats = (\<lambda>s. if s = example_stats then stats_json else ''{}''),
      render_error = (\<lambda>e. if e = ''Not Found'' then not_found_json else ''{}'')\<rparr>"

text \<open>The headers of a downstream response, some of them in upper case.\<close>

definition example_headers :: "(bytes \<times> bytes) list" where
  "example_headers =
     [(''Content-Type'', ''application/json''), (''content-length'', ''30''),
      (''cache-control'', ''no-store''), (''CONTENT-LENGTH'', ''30''),
      (''x-request-id'', ''abc'')]"

text \<open>The scope that reaches the downstream application for \<open>protobuf_scope\<close>.\<close>

definition json_scope_of_protobuf :: scope where
  "json_scope_of_protobuf =
     protobuf_scope\<lparr>scope_headers := update_scope_headers (scope_headers protobuf_scope)\<rparr>"

text \<open>A request body cut off after 20 bytes.\<close>

definition truncated_pb :: bytes where
  "truncated_pb = take 20 classroom_pb"

section \<open>The spec's words\<close>

text \<open>
  The Content Negotiation Gate as the spec words it: a request is binary when it has a
  content-type header, the key read case-insensitively, whose value matches the binary media
  type case-insensitively.
\<close>

definition spec_binary :: "(bytes \<times> bytes) list \<Rightarrow> bool" where
  "spec_binary hs =
     list_ex (\<lambda>(k, v). lower k = ''content-type'' \<and> lower v = ''application/x-protobuf'') hs"

text \<open>
  The arithmetic mean of grades, in the arithmetic of the grades: their sum divided by their
  number.
\<close>

definition arithmetic_mean :: "'f float_ops \<Rightarrow> 'f list \<Rightarrow> 'f" where
  "arithmetic_mean F xs = fdiv F (fsum F xs) (int (length xs))"

text \<open>
  The Message Codec's guarantee, \<^verbatim>\<open>decode(encode(m)) == m\<close> for both encodings, at the
  places where the pipeline of \<^verbatim>\<open>POST /classroom\<close> decodes what another part has encoded:
  the wire bytes of a message decode to the message; the JSON the middleware writes for a
  classroom is read by the framework as that classroom; the JSON the framework writes for
  statistics is read by the middleware as those statistics.
\<close>

fun class_of :: "'f pmsg \<Rightarrow> hint" where
  "class_of (Classroom_msg c) = Classroom_cls"
| "class_of (ClassStats_msg s) = ClassStats_cls"

definition codec_round_trips :: "(hint, 'f pmsg, 'j) lib \<Rightarrow> 'f framework \<Rightarrow> bool" where
  "codec_round_trips L W \<longleftrightarrow>
     (\<forall>m b. SerializeToString L m = Inr b \<longrightarrow> FromString L (class_of m) b = Inr m) \<and>
     (\<forall>c jb. to_json L (Classroom_msg c) = Inr jb \<longrightarrow> parse_classroom W jb = Inr c) \<and>
     (\<forall>s j. json_loads L (render_stats W s) = Inr j \<longrightarrow>
            construct L ClassStats_cls j = Inr (ClassStats_msg s))"

section \<open>Lemmas\<close>

subsection \<open>Dictionaries built from header lists\<close>

lemma dict_get_snoc:
  "dict_get (hs @ [(k', v')]) k = (if k = k' then Some v' else dict_get hs k)"
  by (simp add: dict_get_def)

lemma dict_get_last:
  "dict_get hs k = Some v \<longleftrightarrow>
     (\<exists>pre post. hs = pre @ (k, v) # post \<and> k \<notin> fst ` set post)"
proof (induction hs rule: rev_induct)
  case Nil
  show ?case by (simp add: dict_get_def)
next
  case (snoc x hs)
  obtain k' v' where x: "x = (k', v')" by (cases x)
  show ?case
  proof (cases "k = k'")
    case True
    have "(\<exists>pre post. hs @ [(k', v')] = pre @ (k, v) # post \<and> k \<notin> fst ` set post) \<longleftrightarrow> v' = v"
    proof
      assume "\<exists>pre post. hs @ [(k', v')] = pre @ (k, v) # post \<and> k \<notin> fst ` set post"
      then obtain pre post where e: "hs @ [(k', v')] = pre @ (k, v) # post"
        and n: "k \<notin> fst ` set post" by blast
      show "v' = v"
      proof (cases post rule: rev_cases)
        case Nil
        with e show ?thesis by simp
      next
        case (snoc ys y)
        with e have "y = (k', v')" by simp
        with snoc n True show ?thesis by force
      qed
    next
      assume "v' = v"
      then have "hs @ [(k', v')] = hs @ (k, v) # [] \<and> k \<notin> fst ` set []"
        using True by simp
      then show "\<exists>pre post. hs @ [(k', v')] = pre @ (k, v) # post \<and> k \<notin> fst ` set post"
        by blast
    qed
    then show ?thesis using True x by (simp add: dict_get_snoc)
  next
    case False
    have "(\<exists>pre post. hs @ [(k', v')] = pre @ (k, v) # post \<and> k \<notin> fst ` set post) \<longleftrightarrow>
          (\<exists>pre post. hs = pre @ (k, v) # post \<and> k \<notin> fst ` set post)"
    proof
      assume "\<exists>pre post. hs @ [(k', v')] = pre @ (k, v) # post \<and> k \<notin> fst ` set post"
      then obtain pre post where e: "hs @ [(k', v')] = pre @ (k, v) # post"
        and n: "k \<notin> fst ` set post" by blast
      show "\<exists>pre post. hs = pre @ (k, v) # post \<and> k \<notin> fst ` set post"
      proof (cases post rule: rev_cases)
        case Nil
        with e False show ?thesis by simp
      next
        case (snoc ys y)
        with e have "hs = pre @ (k, v) # ys" by simp
        moreover from n snoc have "k \<notin> fst ` set ys" by simp
        ultimately show ?thesis by blast
      qed
    next
      assume "\<exists>pre post. hs = pre @ (k, v) # post \<and> k \<notin> fst ` set post"
      then obtain pre post where "hs = pre @ (k, v) # post" and "k \<notin> fst ` set post" by blast
      then have "hs @ [(k', v')] = pre @ (k, v) # (post @ [(k', v')]) \<and>
                 k \<notin> fst ` set (post @ [(k', v')])"
        using False by simp
      then show "\<exists>pre post. hs @ [(k', v')] = pre @ (k, v) # post \<and> k \<notin> fst ` set post"
        by blast
    qed
    then show ?thesis using False x snoc.IH by (simp add: dict_get_snoc)
  qed
qed

lemma dict_get_Some_mem: "dict_get hs k = Some v \<Longrightarrow> (k, v) \<in> set hs"
  unfolding dict_get_def by (metis map_of_SomeD set_rev)

subsection \<open>Off the protobuf path\<close>

lemma run_app_pass_through:
  "run_app False jb ro L p (self, c) = (case run_bare p c of (r, c') \<Rightarrow> (r, self, c'))"
proof (induction p arbitrary: c)
  case Return show ?case by simp
next
  case (Raise e) show ?case by simp
next
  case (Receive k)
  show ?case
    by (simp add: new_receive_def Receive.IH split: prod.splits)
next
  case (Send m p)
  show ?case
    by (simp add: new_send_def Send.IH)
qed

lemma call_pass_through:
  "\<not> is_protobuf_request sc \<Longrightarrow>
   call routes L downstream self sc c =
     (case run_bare (downstream sc) c of (r, c') \<Rightarrow> (r, self, c'))"
  by (simp add: call_def run_app_pass_through)

subsection \<open>The example evaluated\<close>

lemma summarize_example:
  "summarize_classroom real_ops example_classroom = Inr example_stats"
  by (simp add: summarize_classroom_def truediv_def real_ops_def example_classroom_def
      example_stats_def)

lemma json_media_example: "json_media_type example_framework ''application/json''"
  by (simp add: example_framework_def)

lemma classroom_route_example:
  "classroom_route example_framework real_ops json_scope =
     Receive (\<lambda>m.
        case parse_classroom example_framework (case msg_body m of None \<Rightarrow> [] | Some b \<Rightarrow> b) of
          Inl e \<Rightarrow> json_response 422 (render_error example_framework e)
        | Inr classroom \<Rightarrow>
           (case summarize_classroom real_ops classroom of
              Inl e \<Rightarrow> Raise e
            | Inr stats \<Rightarrow> json_response 200 (render_stats example_framework stats)))"
  by (simp add: classroom_route_def json_scope_def json_media_example)

lemma length_stats_json: "length stats_json = 30"
  by (simp add: stats_json_def dq_def)

lemma str_30: "str 30 = ''30''"
  by (simp add: str.simps digit_def char_of_def bit_Suc_0_iff)

lemma parse_example:
  "parse_classroom example_framework classroom_json = Inr example_classroom"
  by (simp add: example_framework_def)

lemma render_example:
  "render_stats example_framework example_stats = stats_json"
  by (simp add: example_framework_def)

subsection \<open>One event passed to \<^verbatim>\<open>new_send\<close>\<close>

lemma new_send_start:
  "msg_type sm = ''http.response.start'' \<Longrightarrow>
   new_send True ro L sm (self, c) = (Inr (), self\<lparr>start_message := Some sm\<rparr>, c)"
  by (simp add: new_send_def)

lemma new_send_body:
  assumes "msg_type m = ''http.response.body''" and "msg_body m = Some rb"
    and "translate_body L ro rb = Inr pb"
    and "start_message self = Some sm" and "msg_headers sm = Some hs"
  shows "new_send True ro L m (self, c) =
     (Inr (), self,
      c\<lparr>sent := sent c @ [sm\<lparr>msg_headers := Some (rewrite_headers hs pb)\<rparr>, response_body pb]\<rparr>)"
  using assms by (simp add: new_send_def send_def)

lemma run_app_events:
  "run_app True jb ro L p s =
     (case send_all True ro L (fst (events_under (http_request jb False) p)) s of
        (Inl e, s') \<Rightarrow> (Inl e, s')
      | (Inr u, s') \<Rightarrow> (snd (events_under (http_request jb False) p), s'))"
proof (induction p arbitrary: s)
  case Return show ?case by simp
next
  case (Raise e) show ?case by simp
next
  case (Receive k)
  show ?case by (simp add: new_receive_def Receive.IH split: prod.splits sum.splits)
next
  case (Send m p)
  show ?case
    by (simp add: Send.IH split: prod.splits sum.splits)
qed

subsection \<open>Decimal digits\<close>

lemma digit_value: "d < 10 \<Longrightarrow> of_char (digit d) - 48 = d"
  by (simp add: digit_def of_char_of)

lemma decimal_snoc: "decimal (b @ [c]) = 10 * decimal b + (of_char c - 48)"
  by (simp add: decimal_def)

lemma decimal_str: "decimal (str n) = n"
proof (induction n rule: str.induct)
  case (1 n)
  show ?case
  proof (cases "n < 10")
    case True
    then show ?thesis
      using digit_value [of n] by (simp add: str.simps [of n] decimal_def)
  next
    case False
    then have "decimal (str (n div 10)) = n div 10" using "1.IH" by simp
    then show ?thesis
      using False digit_value [of "n mod 10"]
      by (simp add: str.simps [of n] decimal_snoc)
  qed
qed

subsection \<open>Every body event is answered on its own\<close>

lemma send_all_bodies:
  assumes "start_message self = Some sm" and "msg_headers sm = Some hs"
    and "list_all (\<lambda>(rb, mb, pb). translate_body L ro rb = Inr pb) chunks"
  shows "send_all True ro L (map (\<lambda>(rb, mb, pb). body_event rb mb) chunks) (self, c) =
     (Inr (), self,
      c\<lparr>sent := sent c @
         concat (map (\<lambda>(rb, mb, pb).
                   [sm\<lparr>msg_headers := Some (rewrite_headers hs pb)\<rparr>, response_body pb])
                 chunks)\<rparr>)"
  using assms(3)
proof (induction chunks arbitrary: c)
  case Nil
  show ?case by simp
next
  case (Cons x chunks)
  obtain rb mb pb where x: "x = (rb, mb, pb)" by (cases x)
  from Cons.prems x have t: "translate_body L ro rb = Inr pb"
    and rest: "list_all (\<lambda>(rb, mb, pb). translate_body L ro rb = Inr pb) chunks"
    by simp_all
  have "new_send True ro L (body_event rb mb) (self, c) =
     (Inr (), self,
      c\<lparr>sent := sent c @ [sm\<lparr>msg_headers := Some (rewrite_headers hs pb)\<rparr>, response_body pb]\<rparr>)"
    using t assms(1,2) by (intro new_send_body) (simp_all add: body_event_def)
  then show ?case
    using Cons.IH [OF rest] x by simp
qed

subsection \<open>The example codec evaluated\<close>

lemma stats_json_neq: "stats_json \<noteq> classroom_json" "stats_json \<noteq> []"
  by (simp_all add: stats_json_def classroom_json_def dq_def)

lemma classroom_json_neq: "classroom_json \<noteq> []"
  by (simp add: classroom_json_def dq_def)

lemma translate_example:
  "translate_body example_lib (Some ClassStats_cls) stats_json = Inr stats_pb"
  by (simp add: translate_body_def example_lib_def stats_json_neq)

lemma translate_empty:
  "translate_body example_lib (Some ClassStats_cls) [] = Inl (LibraryError ''JSONDecodeError'')"
  using stats_json_neq(2) classroom_json_neq
  by (simp add: translate_body_def example_lib_def)

lemma length_stats_pb: "length stats_pb = 7"
  by (simp add: stats_pb_def)

lemma str_7: "str 7 = ''7''"
  by (simp add: str.simps digit_def char_of_def bit_Suc_0_iff)

lemma rewrite_example:
  "rewrite_headers example_headers stats_pb =
     [(''cache-control'', ''no-store''), (''x-request-id'', ''abc''),
      (''content-length'', ''7''), (''content-type'', ''application/x-protobuf'')]"
  by (simp add: rewrite_headers_def example_headers_def length_stats_pb str_7 lower_def
      lower_byte_def char_of_def bit_Suc_0_iff)

lemma events_example:
  "events_under (http_request classroom_json False)
     (classroom_route example_framework real_ops json_scope_of_protobuf) =
   ([response_start 200
       [(''content-length'', ''30''), (''content-type'', ''application/json'')],
     body_event stats_json None], Inr ())"
  by (simp add: classroom_route_def json_scope_of_protobuf_def protobuf_scope_def
      update_scope_headers_def json_media_example http_request_def parse_example
      summarize_example render_example json_response_def length_stats_json str_30)

lemma rewrite_example_route:
  "rewrite_headers [(''content-length'', ''30''), (''content-type'', ''application/json'')]
     stats_pb =
   [(''content-length'', ''7''), (''content-type'', ''application/x-protobuf'')]"
  by (simp add: rewrite_headers_def length_stats_pb str_7 lower_def
      lower_byte_def char_of_def bit_Suc_0_iff)

lemma send_all_start_bodies:
  assumes "msg_type sm = ''http.response.start''" and "msg_headers sm = Some hs"
    and "list_all (\<lambda>(rb, mb, pb). translate_body L ro rb = Inr pb) chunks"
  shows "send_all True ro L (sm # map (\<lambda>(rb, mb, pb). body_event rb mb) chunks) (self, c) =
     (Inr (), self\<lparr>start_message := Some sm\<rparr>,
      c\<lparr>sent := sent c @
         concat (map (\<lambda>(rb, mb, pb).
                   [sm\<lparr>msg_headers := Some (rewrite_headers hs pb)\<rparr>, response_body pb])
                 chunks)\<rparr>)"
  using assms send_all_bodies [of "self\<lparr>start_message := Some sm\<rparr>" sm hs L ro chunks c]
  by (simp add: new_send_start)

subsection \<open>The request side\<close>

lemma drain_request_events:
  "bs \<noteq> [] \<Longrightarrow> drain acc (request_events bs @ rest) = (acc @ concat bs, rest)"
proof (induction bs arbitrary: acc rule: request_events.induct)
  case 1
  then show ?case by simp
next
  case (2 b)
  show ?case by (simp add: http_request_def)
next
  case (3 b b' bs)
  then show ?case by (simp add: http_request_def)
qed

lemma update_scope_headers_get:
  "dict_get hs ''content-type'' = Some v \<Longrightarrow>
   dict_get (update_scope_headers hs) ''content-type'' = Some ''application/json''"
proof (induction hs rule: rev_induct)
  case Nil
  then show ?case by (simp add: dict_get_def)
next
  case (snoc x hs)
  obtain k w where x: "x = (k, w)" by (cases x)
  have u: "update_scope_headers (hs @ [(k, w)]) =
      update_scope_headers hs @
        [if k \<noteq> ''content-type'' then (k, w) else (k, ''application/json'')]"
    by (simp add: update_scope_headers_def)
  show ?case
  proof (cases "k = ''content-type''")
    case True
    then show ?thesis using x u by (simp add: dict_get_snoc)
  next
    case False
    then have "dict_get hs ''content-type'' = Some v"
      using snoc.prems x by (simp add: dict_get_snoc)
    then show ?thesis using False x u snoc.IH by (simp add: dict_get_snoc)
  qed
qed

lemma pulls_protobuf: "pulls True jb n c = replicate n (http_request jb False)"
  by (induction n) (simp_all add: new_receive_def)

lemma call_protobuf:
  assumes "is_protobuf_request sc"
    and "find_route routes (scope_path sc) = Some route"
    and "map_of (type_hints route) ''return'' = Some ro"
    and "find (has_FromString L)
           (map snd (filter (\<lambda>(n, h). n \<noteq> ''return'') (type_hints route))) = Some cls"
    and "drain [] (inbox c) = (body, rest)"
    and "FromString L cls body = Inr p" and "to_json L p = Inr jb"
  shows "call routes L downstream self sc c =
     run_app True jb (Some ro) L
       (downstream (sc\<lparr>scope_headers := update_scope_headers (scope_headers sc)\<rparr>))
       (self, c\<lparr>inbox := rest\<rparr>)"
  using assms by (simp add: call_def)

lemma call_decode_error:
  assumes "is_protobuf_request sc"
    and "find_route routes (scope_path sc) = Some route"
    and "map_of (type_hints route) ''return'' = Some ro"
    and "find (has_FromString L)
           (map snd (filter (\<lambda>(n, h). n \<noteq> ''return'') (type_hints route))) = Some cls"
    and "drain [] (inbox c) = (body, rest)"
    and "FromString L cls body = Inl e"
  shows "call routes L downstream self sc c = (Inl (LibraryError e), self, c\<lparr>inbox := rest\<rparr>)"
  using assms by (simp add: call_def)

lemma is_protobuf_example: "is_protobuf_request protobuf_scope"
  by (simp add: is_protobuf_request_def protobuf_scope_def dict_get_def truthy_def)

lemma find_route_example:
  "find_route app_routes ''/classroom'' =
     Some \<lparr>is_APIRoute = True, route_path = ''/classroom'',
           type_hints = [(''classroom'', Classroom_cls), (''return'', ClassStats_cls)]\<rparr>"
  by (simp add: find_route_def app_routes_def)

lemma scope_path_example: "scope_path protobuf_scope = ''/classroom''"
  by (simp add: protobuf_scope_def)

lemma length_classroom_pb: "length classroom_pb = 68"
  by (simp add: classroom_pb_def)

lemma from_string_example:
  "FromString example_lib Classroom_cls classroom_pb = Inr (Classroom_msg example_classroom)"
  by (simp add: example_lib_def)

lemma to_json_example:
  "to_json example_lib (Classroom_msg example_classroom) = Inr classroom_json"
  by (simp add: example_lib_def)

lemma from_string_truncated:
  "FromString example_lib Classroom_cls truncated_pb = Inl ''cannot parse the bytes''"
proof -
  have "length truncated_pb = 20"
    by (simp add: truncated_pb_def length_classroom_pb)
  then have "truncated_pb \<noteq> classroom_pb"
    using length_classroom_pb by auto
  then show ?thesis by (simp add: example_lib_def)
qed

subsection \<open>The route of the classroom\<close>

lemma summarize_three:
  "students classroom = [s1, s2, s3] \<Longrightarrow>
   summarize_classroom F classroom =
     Inr \<lparr>numstudents = 3,
          grade = arithmetic_mean F [avg_grade s1, avg_grade s2, avg_grade s3]\<rparr>"
  by (simp add: summarize_classroom_def truediv_def arithmetic_mean_def)

lemma rewrite_json_headers:
  "rewrite_headers [(''content-length'', n), (''content-type'', ''application/json'')] pb =
     [(''content-length'', str (length pb)), (''content-type'', ''application/x-protobuf'')]"
  by (simp add: rewrite_headers_def lower_def lower_byte_def)

lemma run_app_start_body:
  assumes "events_under (http_request jb False) p = ([sm, m], r)"
    and "msg_type sm = ''http.response.start''" and "msg_headers sm = Some hs"
    and "msg_type m = ''http.response.body''" and "msg_body m = Some rb"
    and "translate_body L ro rb = Inr pb"
  shows "run_app True jb ro L p (self, c) =
     (r, self\<lparr>start_message := Some sm\<rparr>,
      c\<lparr>sent := sent c @
         [sm\<lparr>msg_headers := Some (rewrite_headers hs pb)\<rparr>, response_body pb]\<rparr>)"
proof -
  have "send_all True ro L [sm, m] (self, c) =
     (Inr (), self\<lparr>start_message := Some sm\<rparr>,
      c\<lparr>sent := sent c @ [sm\<lparr>msg_headers := Some (rewrite_headers hs pb)\<rparr>, response_body pb]\<rparr>)"
    using assms new_send_body [of m rb L ro pb "self\<lparr>start_message := Some sm\<rparr>" sm hs c]
    by (simp add: new_send_start)
  then show ?thesis
    using assms(1) by (simp add: run_app_events)
qed

lemma mean_example:
  "arithmetic_mean real_ops [191 / 2, 185 / 2, 88] = 92"
  by (simp add: arithmetic_mean_def real_ops_def)

subsection \<open>What is stored, and what a body event is answered with\<close>

lemma new_send_start_message:
  "new_send True ro L m (self, c) = (r, self', c') \<Longrightarrow>
   start_message self' =
     (if msg_type m = ''http.response.start'' then Some m else start_message self)"
  by (auto simp: new_send_def split: if_splits option.splits sum.splits)

lemma send_all_start_message:
  "send_all True ro L ms (self0, c0) = (Inr u, self, c) \<Longrightarrow>
   start_message self =
     (if filter (\<lambda>e. msg_type e = ''http.response.start'') ms = [] then start_message self0
      else Some (last (filter (\<lambda>e. msg_type e = ''http.response.start'') ms)))"
proof (induction ms arbitrary: self0 c0)
  case Nil
  then show ?case by simp
next
  case (Cons m ms)
  obtain r self1 c1 where n: "new_send True ro L m (self0, c0) = (r, self1, c1)"
    by (cases "new_send True ro L m (self0, c0)") auto
  from Cons.prems n obtain u1 where "r = Inr u1"
    and rest: "send_all True ro L ms (self1, c1) = (Inr u, self, c)"
    by (cases r) auto
  from new_send_start_message [OF n]
  have s1: "start_message self1 =
     (if msg_type m = ''http.response.start'' then Some m else start_message self0)" .
  from Cons.IH [OF rest] s1 show ?case by simp
qed

lemma new_send_body_answered:
  assumes "msg_type m = ''http.response.body''"
    and "new_send True ro L m (self, c) = (Inr u, self', c')"
  shows "\<exists>sm hs rb pb.
     start_message self = Some sm \<and> msg_headers sm = Some hs \<and> msg_body m = Some rb \<and>
     translate_body L ro rb = Inr pb \<and> self' = self \<and>
     c' = c\<lparr>sent := sent c @
            [sm\<lparr>msg_headers := Some (rewrite_headers hs pb)\<rparr>, response_body pb]\<rparr>"
  using assms
  by (auto simp: new_send_def send_def split: if_splits option.splits sum.splits)

subsection \<open>The content-type that reaches the route\<close>

lemma map_of_update_scope_headers:
  "map_of (update_scope_headers hs) ''content-type'' =
     (if ''content-type'' \<in> fst ` set hs then Some ''application/json'' else None)"
  by (induction hs) (auto simp: update_scope_headers_def)

lemma is_protobuf_content_type:
  "is_protobuf_request sc \<Longrightarrow>
   map_of (update_scope_headers (scope_headers sc)) ''content-type'' = Some ''application/json''"
proof -
  assume "is_protobuf_request sc"
  then have "dict_get (scope_headers sc) ''content-type'' = Some ''application/x-protobuf''"
    by (simp add: is_protobuf_request_def Let_def)
  then have "(''content-type'', ''application/x-protobuf'') \<in> set (scope_headers sc)"
    by (rule dict_get_Some_mem)
  then have "''content-type'' \<in> fst ` set (scope_headers sc)"
    by force
  then show ?thesis by (simp add: map_of_update_scope_headers)
qed

lemma example_round_trips: "codec_round_trips example_lib example_framework"
proof -
  have n: "''{}'' \<noteq> classroom_json" "''{}'' \<noteq> stats_json"
    by (simp_all add: classroom_json_def stats_json_def dq_def)
  have "\<forall>m b. SerializeToString example_lib m = Inr b \<longrightarrow>
          FromString example_lib (class_of m) b = Inr m"
    by (auto simp: example_lib_def split: if_splits)
  moreover have "\<forall>c jb. to_json example_lib (Classroom_msg c) = Inr jb \<longrightarrow>
          parse_classroom example_framework jb = Inr c"
    by (auto simp: example_lib_def example_framework_def split: if_splits)
  moreover have "\<forall>s j. json_loads example_lib (render_stats example_framework s) = Inr j \<longrightarrow>
          construct example_lib ClassStats_cls j = Inr (ClassStats_msg s)"
    using n stats_json_neq(1)
    by (auto simp: example_lib_def example_framework_def split: if_splits)
  ultimately show ?thesis by (simp add: codec_round_trips_def)
qed

section \<open>The claims\<close>

subsection \<open>C1: three students, end to end\<close>

text \<open>
  C1. For every binary request to \<^verbatim>\<open>POST /classroom\<close>, in however many chunks, whose body
  decodes to a classroom with three students: the middleware in front of the route returns
  normally and sends one header announcement, with status 200 and the binary media type as
  content-type, and then one body; the bytes of that body are the binary encoding of a
  statistics message, and they decode to the message with \<^verbatim>\<open>numstudents\<close> 3 and as
  \<^verbatim>\<open>grade\<close> the arithmetic mean of the three average grades. The codec with its round
  trips, the framework's JSON handling and the float arithmetic are those of the libraries,
  whatever they are.
\<close>

theorem C1_three_students:
  fixes L :: "(hint, 'f pmsg, 'j) lib"
  assumes "is_protobuf_request sc" and "scope_path sc = ''/classroom''"
    and "bs \<noteq> []"
    and "has_FromString L Classroom_cls"
    and "FromString L Classroom_cls (concat bs) = Inr (Classroom_msg classroom)"
    and "students classroom = [s1, s2, s3]"
    and "codec_round_trips L W"
    and "json_media_type W ''application/json''"
    and "to_json L (Classroom_msg classroom) = Inr jb"
    and "json_loads L (render_stats W
           \<lparr>numstudents = 3,
            grade = arithmetic_mean F [avg_grade s1, avg_grade s2, avg_grade s3]\<rparr>) = Inr j"
    and "SerializeToString L (ClassStats_msg
           \<lparr>numstudents = 3,
            grade = arithmetic_mean F [avg_grade s1, avg_grade s2, avg_grade s3]\<rparr>) = Inr pb"
  shows "fst (call app_routes L (classroom_route W F) self sc
                \<lparr>inbox = request_events bs, sent = out\<rparr>) = Inr ()
     \<and> snd (snd (call app_routes L (classroom_route W F) self sc
                \<lparr>inbox = request_events bs, sent = out\<rparr>)) =
       \<lparr>inbox = [],
        sent = out @
          [\<lparr>msg_type = ''http.response.start'', msg_body = None, msg_more_body = None,
            msg_status = Some 200,
            msg_headers = Some
              [(''content-length'', str (length pb)),
               (''content-type'', ''application/x-protobuf'')]\<rparr>,
           \<lparr>msg_type = ''http.response.body'', msg_body = Some pb,
            msg_more_body = Some False, msg_status = None, msg_headers = None\<rparr>]\<rparr>
     \<and> FromString L ClassStats_cls pb =
         Inr (ClassStats_msg
           \<lparr>numstudents = 3,
            grade = arithmetic_mean F [avg_grade s1, avg_grade s2, avg_grade s3]\<rparr>)"
proof -
  let ?route = "\<lparr>is_APIRoute = True, route_path = ''/classroom'',
           type_hints = [(''classroom'', Classroom_cls), (''return'', ClassStats_cls)]\<rparr>"
  let ?stats = "\<lparr>numstudents = 3,
               grade = arithmetic_mean F [avg_grade s1, avg_grade s2, avg_grade s3]\<rparr>"
  let ?sc = "sc\<lparr>scope_headers := update_scope_headers (scope_headers sc)\<rparr>"
  let ?hs = "[(''content-length'', str (length (render_stats W ?stats))),
        (''content-type'', ''application/json'')]"
  let ?start = "response_start 200 ?hs"
  from assms(7) have rt1: "\<And>m b. SerializeToString L m = Inr b \<Longrightarrow>
        FromString L (class_of m) b = Inr m"
    and rt2: "\<And>c jb. to_json L (Classroom_msg c) = Inr jb \<Longrightarrow> parse_classroom W jb = Inr c"
    and rt3: "\<And>s j. json_loads L (render_stats W s) = Inr j \<Longrightarrow>
        construct L ClassStats_cls j = Inr (ClassStats_msg s)"
    by (simp_all add: codec_round_trips_def)
  have p: "parse_classroom W jb = Inr classroom"
    using rt2 [OF assms(9)] .
  have t: "translate_body L (Some ClassStats_cls) (render_stats W ?stats) = Inr pb"
    using assms(10,11) rt3 [OF assms(10)] by (simp add: translate_body_def)
  have dec: "FromString L ClassStats_cls pb = Inr (ClassStats_msg ?stats)"
    using rt1 [OF assms(11)] by simp
  have r: "find_route app_routes (scope_path sc) = Some ?route"
    using assms(2) by (simp add: find_route_example)
  have f: "find (has_FromString L)
          (map snd (filter (\<lambda>(n, h). n \<noteq> ''return'') (type_hints ?route))) = Some Classroom_cls"
    using assms(4) by simp
  have d: "drain [] (inbox \<lparr>inbox = request_events bs, sent = out\<rparr>) = (concat bs, [])"
    using drain_request_events [OF assms(3), of "[]" "[]"] by simp
  have e: "events_under (http_request jb False) (classroom_route W F ?sc) =
      ([?start, body_event (render_stats W ?stats) None], Inr ())"
    using assms(2,8) p summarize_three [OF assms(6), of F]
      is_protobuf_content_type [OF assms(1)]
    by (simp add: classroom_route_def http_request_def json_response_def)
  have s: "run_app True jb (Some ClassStats_cls) L (classroom_route W F ?sc)
             (self, \<lparr>inbox = [], sent = out\<rparr>) =
     (Inr (), self\<lparr>start_message := Some ?start\<rparr>,
      \<lparr>inbox = [], sent = out @
         [?start\<lparr>msg_headers := Some (rewrite_headers ?hs pb)\<rparr>, response_body pb]\<rparr>)"
    using run_app_start_body [OF e _ _ _ _ t, of ?hs self "\<lparr>inbox = [], sent = out\<rparr>"]
    by (simp add: response_start_def body_event_def)
  have c: "call app_routes L (classroom_route W F) self sc
          \<lparr>inbox = request_events bs, sent = out\<rparr> =
     run_app True jb (Some ClassStats_cls) L (classroom_route W F ?sc)
             (self, \<lparr>inbox = [], sent = out\<rparr>)"
    using call_protobuf [OF assms(1) r _ f d assms(5,9), of ClassStats_cls
        "classroom_route W F" self]
    by simp
  show ?thesis
    unfolding c s using dec
    by (simp add: rewrite_json_headers response_start_def response_body_def)
qed

theorem C1_three_students_witness:
  "fst (call app_routes example_lib (classroom_route example_framework real_ops)
          \<lparr>start_message = None\<rparr> protobuf_scope
          \<lparr>inbox = [http_request classroom_pb False], sent = []\<rparr>) = Inr ()
   \<and> snd (snd (call app_routes example_lib (classroom_route example_framework real_ops)
          \<lparr>start_message = None\<rparr> protobuf_scope
          \<lparr>inbox = [http_request classroom_pb False], sent = []\<rparr>)) =
     \<lparr>inbox = [],
      sent =
        [\<lparr>msg_type = ''http.response.start'', msg_body = None, msg_more_body = None,
          msg_status = Some 200,
          msg_headers = Some
            [(''content-length'', ''7''), (''content-type'', ''application/x-protobuf'')]\<rparr>,
         \<lparr>msg_type = ''http.response.body'', msg_body = Some stats_pb,
          msg_more_body = Some False, msg_status = None, msg_headers = None\<rparr>]\<rparr>
   \<and> FromString example_lib ClassStats_cls stats_pb =
       Inr (ClassStats_msg \<lparr>numstudents = 3, grade = 92\<rparr>)"
proof -
  let ?s1 = "\<lparr>name = ''John'', avg_grade = 191 / 2, dob = 632361600000000\<rparr> :: real student"
  let ?s2 = "\<lparr>name = ''Jane'', avg_grade = 185 / 2, dob = 793238400000000\<rparr> :: real student"
  let ?s3 = "\<lparr>name = ''Jim'', avg_grade = 88, dob = 700185600000000\<rparr> :: real student"
  have h: "has_FromString example_lib Classroom_cls"
    by (simp add: example_lib_def)
  have st: "students example_classroom = [?s1, ?s2, ?s3]"
    by (simp add: example_classroom_def)
  have m: "\<lparr>numstudents = 3,
            grade = arithmetic_mean real_ops [avg_grade ?s1, avg_grade ?s2, avg_grade ?s3]\<rparr>
           = example_stats"
    by (simp add: mean_example example_stats_def)
  have fs: "FromString example_lib Classroom_cls (concat [classroom_pb]) =
      Inr (Classroom_msg example_classroom)"
    by (simp add: from_string_example)
  have jl: "json_loads example_lib (render_stats example_framework
           \<lparr>numstudents = 3,
            grade = arithmetic_mean real_ops [avg_grade ?s1, avg_grade ?s2, avg_grade ?s3]\<rparr>)
         = Inr (ClassStats_msg example_stats)"
    unfolding m using stats_json_neq(1) by (simp add: render_example example_lib_def)
  have ser: "SerializeToString example_lib (ClassStats_msg
           \<lparr>numstudents = 3,
            grade = arithmetic_mean real_ops [avg_grade ?s1, avg_grade ?s2, avg_grade ?s3]\<rparr>)
         = Inr stats_pb"
    unfolding m by (simp add: example_lib_def)
  from C1_three_students [OF is_protobuf_example scope_path_example _ h fs st example_round_trips
      json_media_example to_json_example jl ser, of "\<lparr>start_message = None\<rparr>" "[]"]
  show ?thesis
    unfolding m by (simp add: example_stats_def length_stats_pb str_7)
qed

subsection \<open>C2: a response body in several events\<close>

text \<open>
  C2. The claim: a response body that the downstream application sends in several body
  events is concatenated, nothing is forwarded before the event with \<^verbatim>\<open>more_body\<close>
  false, and the concatenation is translated. The code at a streamed response, one chunk
  with the whole JSON document that announces more and an empty last chunk: after the first
  chunk, the last not yet there, a header announcement and a body have been forwarded; the
  last chunk then raises in \<^verbatim>\<open>json.loads\<close>, although the concatenation of the two chunks
  translates. The request side does read its chunks to the end (\<open>drain\<close>); the response
  side never reads \<^verbatim>\<open>more_body\<close>.
\<close>

theorem C2_streamed_response_not_buffered:
  "sent (snd (snd
     (send_all True (Some ClassStats_cls) example_lib
        [response_start 200 example_headers, body_event stats_json (Some True)]
        (\<lparr>start_message = None\<rparr>, \<lparr>inbox = [], sent = []\<rparr>)))) =
     [response_start 200 (rewrite_headers example_headers stats_pb), response_body stats_pb]
   \<and> fst (send_all True (Some ClassStats_cls) example_lib
        [response_start 200 example_headers, body_event stats_json (Some True),
         body_event [] (Some False)]
        (\<lparr>start_message = None\<rparr>, \<lparr>inbox = [], sent = []\<rparr>)) =
     Inl (LibraryError ''JSONDecodeError'')
   \<and> translate_body example_lib (Some ClassStats_cls) (stats_json @ []) = Inr stats_pb"
  by (simp add: new_send_def response_start_def body_event_def translate_example
      translate_empty send_def)

subsection \<open>C3: requests off the protobuf path\<close>

text \<open>
  C3. For every request without a content-type header that is the binary media type, calling
  the middleware is calling the downstream application on the server's own \<^verbatim>\<open>receive\<close>
  and \<^verbatim>\<open>send\<close> with the scope as it came: the same result, the same events received and
  sent, byte for byte, no state kept, and no codec function in the result.
\<close>

theorem C3_pass_through:
  assumes "(''content-type'', ''application/x-protobuf'') \<notin> set (scope_headers sc)"
  shows "call routes L downstream self sc c =
     (case run_bare (downstream sc) c of (r, c') \<Rightarrow> (r, self, c'))"
proof -
  have "\<not> is_protobuf_request sc"
    using assms dict_get_Some_mem [of "scope_headers sc" "''content-type''"]
    by (auto simp: is_protobuf_request_def Let_def)
  then show ?thesis by (rule call_pass_through)
qed

theorem C3_pass_through_witness:
  "(''content-type'', ''application/x-protobuf'') \<notin> set (scope_headers json_scope) \<and>
   call app_routes example_lib (classroom_route example_framework real_ops)
     \<lparr>start_message = None\<rparr> json_scope
     \<lparr>inbox = [http_request classroom_json False], sent = []\<rparr> =
   (Inr (), \<lparr>start_message = None\<rparr>,
    \<lparr>inbox = [],
     sent = [response_start 200
               [(''content-length'', ''30''), (''content-type'', ''application/json'')],
             body_event stats_json None]\<rparr>)"
proof -
  have h: "(''content-type'', ''application/x-protobuf'') \<notin> set (scope_headers json_scope)"
    by (simp add: json_scope_def)
  have "run_bare (classroom_route example_framework real_ops json_scope)
          \<lparr>inbox = [http_request classroom_json False], sent = []\<rparr>
        = (Inr (), \<lparr>inbox = [],
     sent = [response_start 200
               [(''content-length'', ''30''), (''content-type'', ''application/json'')],
             body_event stats_json None]\<rparr>)"
    by (simp add: classroom_route_example receive_def http_request_def parse_example
        render_example summarize_example json_response_def send_def length_stats_json str_30)
  with h C3_pass_through [OF h, of app_routes example_lib
      "classroom_route example_framework real_ops" "\<lparr>start_message = None\<rparr>"
      "\<lparr>inbox = [http_request classroom_json False], sent = []\<rparr>"]
  show ?thesis by simp
qed

subsection \<open>C4: a body that does not decode\<close>

text \<open>
  C4. The claim: a binary request whose body is no encoding of the route's input message
  gets a client error, and the downstream application is not called. The code at a body cut
  off after 20 bytes: \<^verbatim>\<open>FromString\<close> raises and nothing catches it. Whatever the downstream
  application, it is not called and nothing is sent, but the call ends with the library's
  exception and not with an \<^verbatim>\<open>HTTPException\<close> of a 4xx status, as the route lookup
  before it does.
\<close>

theorem C4_decode_error_not_client_error:
  "\<forall>downstream.
     call app_routes example_lib downstream \<lparr>start_message = None\<rparr> protobuf_scope
       \<lparr>inbox = [http_request truncated_pb False], sent = []\<rparr> =
     (Inl (LibraryError ''cannot parse the bytes''), \<lparr>start_message = None\<rparr>,
      \<lparr>inbox = [], sent = []\<rparr>)"
proof
  fix downstream
  have "drain [] (inbox \<lparr>inbox = [http_request truncated_pb False], sent = []\<rparr>) =
          (truncated_pb, [])"
    by (simp add: http_request_def)
  moreover have "find (has_FromString example_lib)
          (map snd (filter (\<lambda>(n, h). n \<noteq> ''return'')
             (type_hints \<lparr>is_APIRoute = True, route_path = ''/classroom'',
           type_hints = [(''classroom'', Classroom_cls), (''return'', ClassStats_cls)]\<rparr>)))
        = Some Classroom_cls"
    by (simp add: example_lib_def)
  ultimately show "call app_routes example_lib downstream \<lparr>start_message = None\<rparr>
       protobuf_scope \<lparr>inbox = [http_request truncated_pb False], sent = []\<rparr> =
     (Inl (LibraryError ''cannot parse the bytes''), \<lparr>start_message = None\<rparr>,
      \<lparr>inbox = [], sent = []\<rparr>)"
    using call_decode_error [of protobuf_scope app_routes
      "\<lparr>is_APIRoute = True, route_path = ''/classroom'',
           type_hints = [(''classroom'', Classroom_cls), (''return'', ClassStats_cls)]\<rparr>"
      ClassStats_cls example_lib Classroom_cls
      "\<lparr>inbox = [http_request truncated_pb False], sent = []\<rparr>" truncated_pb "[]"
      "''cannot parse the bytes''" downstream "\<lparr>start_message = None\<rparr>"]
      is_protobuf_example find_route_example from_string_truncated
    by (simp add: scope_path_example)
qed

subsection \<open>C5: header announcement and body, in this order\<close>

text \<open>
  C5. The claim: on the protobuf path the header announcement is sent exactly once, before
  exactly one body event with the complete payload. The code at a response that the
  downstream application streams as two body events, each a JSON document of the
  statistics: \<^verbatim>\<open>new_send\<close> answers each body event on its own, so the header announcement is
  sent twice and two bodies flagged as last are sent. It is the defect of C2: the response
  side never reads \<^verbatim>\<open>more_body\<close>, while its comments and the \<^verbatim>\<open>more_body\<close> false it
  writes speak of one complete body, and the request side reads its chunks to the end.
\<close>

theorem C5_header_announced_twice:
  "sent (snd (snd
     (run_app True classroom_json (Some ClassStats_cls) example_lib
        (Send (response_start 200 [(''content-type'', ''application/json'')])
           (Send (body_event stats_json (Some True))
              (Send (body_event stats_json (Some False)) Return)))
        (\<lparr>start_message = None\<rparr>, \<lparr>inbox = [], sent = []\<rparr>)))) =
   [\<lparr>msg_type = ''http.response.start'', msg_body = None, msg_more_body = None,
     msg_status = Some 200,
     msg_headers = Some
       [(''content-length'', ''7''), (''content-type'', ''application/x-protobuf'')]\<rparr>,
    \<lparr>msg_type = ''http.response.body'', msg_body = Some stats_pb,
     msg_more_body = Some False, msg_status = None, msg_headers = None\<rparr>,
    \<lparr>msg_type = ''http.response.start'', msg_body = None, msg_more_body = None,
     msg_status = Some 200,
     msg_headers = Some
       [(''content-length'', ''7''), (''content-type'', ''application/x-protobuf'')]\<rparr>,
    \<lparr>msg_type = ''http.response.body'', msg_body = Some stats_pb,
     msg_more_body = Some False, msg_status = None, msg_headers = None\<rparr>]"
  by (simp add: new_send_def response_start_def body_event_def translate_example send_def
      response_body_def rewrite_headers_def length_stats_pb str_7 lower_def lower_byte_def
      char_of_def bit_Suc_0_iff)

subsection \<open>C6: the headers of a translated response\<close>

text \<open>
  C6. For every body event that the middleware answers on the protobuf path, whatever events
  went before: the header list it sends is the one of the header announcement captured last,
  without the entries whose key, in lower case, is \<^verbatim>\<open>content-type\<close> or
  \<^verbatim>\<open>content-length\<close>, the others unchanged and in their order, followed by
  \<^verbatim>\<open>content-length\<close> with the decimal length of the binary body and \<^verbatim>\<open>content-type\<close>
  with the binary media type; the body event sent next carries these very bytes, and the
  digits sent denote exactly their number.
\<close>

theorem C6_header_rewrite:
  assumes "send_all True ro L ms (self0, c0) = (Inr u0, self, c)"
    and "msg_type m = ''http.response.body''"
    and "new_send True ro L m (self, c) = (Inr u, self', c')"
  shows "\<exists>sm hs rb pb.
     (if filter (\<lambda>e. msg_type e = ''http.response.start'') ms = [] then start_message self0
      else Some (last (filter (\<lambda>e. msg_type e = ''http.response.start'') ms))) = Some sm
     \<and> msg_headers sm = Some hs \<and> msg_body m = Some rb \<and> translate_body L ro rb = Inr pb
     \<and> sent c' = sent c @
          [sm\<lparr>msg_headers := Some
                (filter (\<lambda>(k, v). lower k \<noteq> ''content-type'' \<and> lower k \<noteq> ''content-length'')
                   hs
                 @ [(''content-length'', str (length pb)),
                    (''content-type'', ''application/x-protobuf'')])\<rparr>,
           \<lparr>msg_type = ''http.response.body'', msg_body = Some pb,
            msg_more_body = Some False, msg_status = None, msg_headers = None\<rparr>]
     \<and> decimal (str (length pb)) = length pb"
proof -
  from new_send_body_answered [OF assms(2,3)]
  obtain sm hs rb pb where a: "start_message self = Some sm" "msg_headers sm = Some hs"
    "msg_body m = Some rb" "translate_body L ro rb = Inr pb"
    and c': "c' = c\<lparr>sent := sent c @
            [sm\<lparr>msg_headers := Some (rewrite_headers hs pb)\<rparr>, response_body pb]\<rparr>"
    by blast
  have r: "rewrite_headers hs pb =
      filter (\<lambda>(k, v). lower k \<noteq> ''content-type'' \<and> lower k \<noteq> ''content-length'') hs
        @ [(''content-length'', str (length pb)),
           (''content-type'', ''application/x-protobuf'')]"
    by (simp add: rewrite_headers_def)
  from send_all_start_message [OF assms(1)] a(1)
  have "(if filter (\<lambda>e. msg_type e = ''http.response.start'') ms = [] then start_message self0
      else Some (last (filter (\<lambda>e. msg_type e = ''http.response.start'') ms))) = Some sm"
    by simp
  with a c' r show ?thesis
    by (simp add: response_body_def decimal_str)
qed

theorem C6_header_rewrite_witness:
  "sent (snd (snd
     (new_send True (Some ClassStats_cls) example_lib (body_event stats_json (Some False))
        (snd (send_all True (Some ClassStats_cls) example_lib
           [response_start 200 example_headers, body_event stats_json (Some True)]
           (\<lparr>start_message = None\<rparr>, \<lparr>inbox = [], sent = []\<rparr>)))))) =
   [\<lparr>msg_type = ''http.response.start'', msg_body = None, msg_more_body = None,
     msg_status = Some 200,
     msg_headers = Some
       [(''cache-control'', ''no-store''), (''x-request-id'', ''abc''),
        (''content-length'', ''7''), (''content-type'', ''application/x-protobuf'')]\<rparr>,
    \<lparr>msg_type = ''http.response.body'', msg_body = Some stats_pb,
     msg_more_body = Some False, msg_status = None, msg_headers = None\<rparr>,
    \<lparr>msg_type = ''http.response.start'', msg_body = None, msg_more_body = None,
     msg_status = Some 200,
     msg_headers = Some
       [(''cache-control'', ''no-store''), (''x-request-id'', ''abc''),
        (''content-length'', ''7''), (''content-type'', ''application/x-protobuf'')]\<rparr>,
    \<lparr>msg_type = ''http.response.body'', msg_body = Some stats_pb,
     msg_more_body = Some False, msg_status = None, msg_headers = None\<rparr>]
   \<and> decimal ''7'' = 7 \<and> length stats_pb = 7"
proof -
  let ?start = "response_start 200 example_headers"
  let ?self = "\<lparr>start_message = Some ?start\<rparr>"
  let ?out = "[?start\<lparr>msg_headers := Some (rewrite_headers example_headers stats_pb)\<rparr>,
               response_body stats_pb]"
  have h1: "send_all True (Some ClassStats_cls) example_lib
           [?start, body_event stats_json (Some True)]
           (\<lparr>start_message = None\<rparr>, \<lparr>inbox = [], sent = []\<rparr>) =
        (Inr (), ?self, \<lparr>inbox = [], sent = ?out\<rparr>)"
    by (simp add: new_send_def response_start_def body_event_def translate_example send_def)
  have h2: "msg_type (body_event stats_json (Some False)) = ''http.response.body''"
    by (simp add: body_event_def)
  have h3: "new_send True (Some ClassStats_cls) example_lib (body_event stats_json (Some False))
        (?self, \<lparr>inbox = [], sent = ?out\<rparr>) =
        (Inr (), ?self, \<lparr>inbox = [], sent = ?out @ ?out\<rparr>)"
    by (simp add: new_send_def response_start_def body_event_def translate_example send_def)
  from C6_header_rewrite [OF h1 h2 h3]
  obtain sm hs rb pb where
    "Some ?start = Some sm" "msg_headers sm = Some hs"
    "msg_body (body_event stats_json (Some False)) = Some rb"
    "translate_body example_lib (Some ClassStats_cls) rb = Inr pb"
    and d: "decimal (str (length pb)) = length pb"
    by (auto simp: response_start_def)
  then have "pb = stats_pb"
    by (simp add: body_event_def translate_example)
  with d have "decimal ''7'' = 7" by (simp add: length_stats_pb str_7)
  moreover have "sent (snd (snd
     (new_send True (Some ClassStats_cls) example_lib (body_event stats_json (Some False))
        (snd (send_all True (Some ClassStats_cls) example_lib
           [?start, body_event stats_json (Some True)]
           (\<lparr>start_message = None\<rparr>, \<lparr>inbox = [], sent = []\<rparr>)))))) = ?out @ ?out"
    by (simp only: h1 h3 snd_conv conn.select_convs)
  moreover have "?out @ ?out =
   [\<lparr>msg_type = ''http.response.start'', msg_body = None, msg_more_body = None,
     msg_status = Some 200,
     msg_headers = Some
       [(''cache-control'', ''no-store''), (''x-request-id'', ''abc''),
        (''content-length'', ''7''), (''content-type'', ''application/x-protobuf'')]\<rparr>,
    \<lparr>msg_type = ''http.response.body'', msg_body = Some stats_pb,
     msg_more_body = Some False, msg_status = None, msg_headers = None\<rparr>,
    \<lparr>msg_type = ''http.response.start'', msg_body = None, msg_more_body = None,
     msg_status = Some 200,
     msg_headers = Some
       [(''cache-control'', ''no-store''), (''x-request-id'', ''abc''),
        (''content-length'', ''7''), (''content-type'', ''application/x-protobuf'')]\<rparr>,
    \<lparr>msg_type = ''http.response.body'', msg_body = Some stats_pb,
     msg_more_body = Some False, msg_status = None, msg_headers = None\<rparr>]"
    by (simp add: rewrite_example response_start_def response_body_def)
  ultimately show ?thesis
    by (simp only: length_stats_pb simp_thms)
qed

subsection \<open>C7: the test that selects the protobuf path\<close>

text \<open>
  C7, as amended. A request is taken for binary exactly when its scope type is
  \<^verbatim>\<open>http\<close> and the last header whose key is the bytes \<^verbatim>\<open>content-type\<close> has the value
  \<^verbatim>\<open>application/x-protobuf\<close>, byte for byte; any other value, and the absence of such a
  header, leave the request on the pass-through path.
\<close>

theorem C7_last_content_type_exact:
  "is_protobuf_request sc \<longleftrightarrow>
     scope_type sc = ''http'' \<and>
     (\<exists>pre post. scope_headers sc = pre @ (''content-type'', ''application/x-protobuf'') # post
        \<and> ''content-type'' \<notin> fst ` set post)"
proof -
  have "is_protobuf_request sc \<longleftrightarrow>
          scope_type sc = ''http'' \<and>
          dict_get (scope_headers sc) ''content-type'' = Some ''application/x-protobuf''"
    by (auto simp: is_protobuf_request_def Let_def truthy_def dict_get_def)
  then show ?thesis by (simp only: dict_get_last)
qed

theorem C7_last_content_type_exact_witness:
  "is_protobuf_request
     \<lparr>scope_type = ''http'',
      scope_headers =
        [(''content-type'', ''text/plain''), (''content-type'', ''application/x-protobuf''),
         (''accept'', ''*/*'')],
      scope_path = ''/classroom''\<rparr>"
proof -
  have "[(''content-type'', ''text/plain''), (''content-type'', ''application/x-protobuf''),
         (''accept'', ''*/*'')]
        = [(''content-type'', ''text/plain'')] @ (''content-type'', ''application/x-protobuf'')
            # [(''accept'', ''*/*'')]
        \<and> ''content-type'' \<notin> fst ` set [(''accept'', ''*/*'')]"
    by simp
  then have "\<exists>pre post. [(''content-type'', ''text/plain''), (''content-type'', ''application/x-protobuf''),
         (''accept'', ''*/*'')] = pre @ (''content-type'', ''application/x-protobuf'') # post
        \<and> ''content-type'' \<notin> fst ` set post"
    by blast
  then show ?thesis
    using C7_last_content_type_exact [of "\<lparr>scope_type = ''http'',
      scope_headers =
        [(''content-type'', ''text/plain''), (''content-type'', ''application/x-protobuf''),
         (''accept'', ''*/*'')],
      scope_path = ''/classroom''\<rparr>"]
    by simp
qed

text \<open>
  The claim as the spec states it fails: a value that matches the binary media type only up
  to letter case is not taken for binary.
\<close>

theorem C7_value_case_counterexample:
  "spec_binary [(''content-type'', ''Application/X-Protobuf'')] \<and>
   \<not> is_protobuf_request
     \<lparr>scope_type = ''http'',
      scope_headers = [(''content-type'', ''Application/X-Protobuf'')],
      scope_path = ''/classroom''\<rparr>"
  by (simp add: spec_binary_def is_protobuf_request_def dict_get_def truthy_def lower_def
      lower_byte_def char_of_def bit_Suc_0_iff)

subsection \<open>C8: the request that reaches the downstream application\<close>

text \<open>
  C8, as amended. For every binary request whose route and message types are found and
  whose body decodes, in however many chunks the body arrived: the downstream application is
  called on the scope with every \<^verbatim>\<open>content-type\<close> header set to the JSON media type, and
  every call of its \<^verbatim>\<open>receive\<close> returns the complete JSON-encoded body as one chunk with
  \<^verbatim>\<open>more_body\<close> false, so that what it sends is what it sends on that one answer.
\<close>

theorem C8_json_body_on_every_pull:
  assumes "is_protobuf_request sc"
    and "find_route routes (scope_path sc) = Some route"
    and "map_of (type_hints route) ''return'' = Some ro"
    and "find (has_FromString L)
           (map snd (filter (\<lambda>(n, h). n \<noteq> ''return'') (type_hints route))) = Some cls"
    and "bs \<noteq> []" and "FromString L cls (concat bs) = Inr p" and "to_json L p = Inr jb"
  shows "call routes L downstream self sc \<lparr>inbox = request_events bs, sent = out\<rparr> =
     (case send_all True (Some ro) L
             (fst (events_under (http_request jb False)
                (downstream (sc\<lparr>scope_headers :=
                   map (\<lambda>(k, v). if k = ''content-type'' then (k, ''application/json'')
                                   else (k, v)) (scope_headers sc)\<rparr>))))
             (self, \<lparr>inbox = [], sent = out\<rparr>) of
        (Inl e, s') \<Rightarrow> (Inl e, s')
      | (Inr u, s') \<Rightarrow>
          (snd (events_under (http_request jb False)
             (downstream (sc\<lparr>scope_headers :=
                map (\<lambda>(k, v). if k = ''content-type'' then (k, ''application/json'')
                                else (k, v)) (scope_headers sc)\<rparr>))), s'))
     \<and> dict_get (map (\<lambda>(k, v). if k = ''content-type'' then (k, ''application/json'')
                                  else (k, v)) (scope_headers sc)) ''content-type''
         = Some ''application/json''
     \<and> (\<forall>n c. pulls True jb n c = replicate n (http_request jb False))"
proof -
  have m: "map (\<lambda>(k, v). if k = ''content-type'' then (k, ''application/json'')
                                  else (k, v)) (scope_headers sc)
        = update_scope_headers (scope_headers sc)"
    by (auto simp: update_scope_headers_def)
  have d: "drain [] (inbox \<lparr>inbox = request_events bs, sent = out\<rparr>) = (concat bs, [])"
    using drain_request_events [OF assms(5), of "[]" "[]"] by simp
  have g: "dict_get (scope_headers sc) ''content-type'' = Some ''application/x-protobuf''"
    using assms(1) by (simp add: is_protobuf_request_def Let_def)
  show ?thesis
    unfolding m
    using call_protobuf [OF assms(1-4) d assms(6,7), of downstream self]
      update_scope_headers_get [OF g]
    by (simp add: run_app_events pulls_protobuf)
qed

theorem C8_json_body_on_every_pull_witness:
  "call app_routes example_lib (classroom_route example_framework real_ops)
     \<lparr>start_message = None\<rparr> protobuf_scope
     \<lparr>inbox = request_events [take 30 classroom_pb, drop 30 classroom_pb], sent = []\<rparr> =
   (Inr (),
    \<lparr>start_message = Some (response_start 200
       [(''content-length'', ''30''), (''content-type'', ''application/json'')])\<rparr>,
    \<lparr>inbox = [],
     sent = [response_start 200
               [(''content-length'', ''7''), (''content-type'', ''application/x-protobuf'')],
             response_body stats_pb]\<rparr>)"
proof -
  have e: "events_under (http_request classroom_json False)
     (classroom_route example_framework real_ops
        (protobuf_scope\<lparr>scope_headers :=
           map (\<lambda>(k, v). if k = ''content-type'' then (k, ''application/json'') else (k, v))
             (scope_headers protobuf_scope)\<rparr>)) =
   ([response_start 200
       [(''content-length'', ''30''), (''content-type'', ''application/json'')],
     body_event stats_json None], Inr ())"
    using events_example
    by (simp add: json_scope_of_protobuf_def update_scope_headers_def protobuf_scope_def)
  have s: "send_all True (Some ClassStats_cls) example_lib
     [response_start 200
       [(''content-length'', ''30''), (''content-type'', ''application/json'')],
     body_event stats_json None] (\<lparr>start_message = None\<rparr>, \<lparr>inbox = [], sent = []\<rparr>) =
     (Inr (),
    \<lparr>start_message = Some (response_start 200
       [(''content-length'', ''30''), (''content-type'', ''application/json'')])\<rparr>,
    \<lparr>inbox = [],
     sent = [response_start 200
               [(''content-length'', ''7''), (''content-type'', ''application/x-protobuf'')],
             response_body stats_pb]\<rparr>)"
    by (simp add: new_send_def response_start_def body_event_def translate_example send_def
        rewrite_example_route)
  have "find (has_FromString example_lib)
          (map snd (filter (\<lambda>(n, h). n \<noteq> ''return'')
             (type_hints \<lparr>is_APIRoute = True, route_path = ''/classroom'',
           type_hints = [(''classroom'', Classroom_cls), (''return'', ClassStats_cls)]\<rparr>)))
        = Some Classroom_cls"
    by (simp add: example_lib_def)
  moreover have "[take 30 classroom_pb, drop 30 classroom_pb] \<noteq> []" by simp
  moreover have "FromString example_lib Classroom_cls
      (concat [take 30 classroom_pb, drop 30 classroom_pb]) = Inr (Classroom_msg example_classroom)"
    by (simp add: from_string_example)
  ultimately show ?thesis
    using C8_json_body_on_every_pull [of protobuf_scope app_routes
      "\<lparr>is_APIRoute = True, route_path = ''/classroom'',
           type_hints = [(''classroom'', Classroom_cls), (''return'', ClassStats_cls)]\<rparr>"
      ClassStats_cls example_lib Classroom_cls
      "[take 30 classroom_pb, drop 30 classroom_pb]"
      "Classroom_msg example_classroom" classroom_json
      "classroom_route example_framework real_ops" "\<lparr>start_message = None\<rparr>" "[]"]
      is_protobuf_example find_route_example to_json_example
    by (simp add: scope_path_example e s del: send_all.simps request_events.simps)
qed

text \<open>
  The claim as the spec states it, the body yielded exactly once, fails: a second call of
  \<^verbatim>\<open>receive\<close> yields the body again.
\<close>

theorem C8_body_twice_counterexample:
  "map msg_body (pulls True classroom_json 2 \<lparr>inbox = [], sent = []\<rparr>) =
     [Some classroom_json, Some classroom_json]"
  by (simp add: numeral_2_eq_2 new_receive_def http_request_def)

subsection \<open>C9: two requests, one middleware instance\<close>

text \<open>
  C9. The claim: the header announcement a request has captured belongs to that request
  alone, and no request changes what another one sends. The code keeps it in
  \<^verbatim>\<open>self.start_message\<close>, on the one instance that serves every request. Alone, the first
  request sends its own status 200 and headers; when the second request announces its
  headers between the first one's announcement and body, the first request sends the
  status 422 and the headers of the second.
\<close>

theorem C9_start_message_shared:
  "sent (fst (snd
     (interleave example_lib (Some ClassStats_cls) (Some ClassStats_cls)
        [(False, response_start 200 [(''x-request'', ''first'')]),
         (False, body_event stats_json None)]
        (\<lparr>start_message = None\<rparr>, \<lparr>inbox = [], sent = []\<rparr>, \<lparr>inbox = [], sent = []\<rparr>)))) =
     [response_start 200
        [(''x-request'', ''first''), (''content-length'', ''7''),
         (''content-type'', ''application/x-protobuf'')],
      response_body stats_pb]
   \<and> sent (fst (snd
     (interleave example_lib (Some ClassStats_cls) (Some ClassStats_cls)
        [(False, response_start 200 [(''x-request'', ''first'')]),
         (True, response_start 422 [(''x-request'', ''second'')]),
         (False, body_event stats_json None)]
        (\<lparr>start_message = None\<rparr>, \<lparr>inbox = [], sent = []\<rparr>, \<lparr>inbox = [], sent = []\<rparr>)))) =
     [response_start 422
        [(''x-request'', ''second''), (''content-length'', ''7''),
         (''content-type'', ''application/x-protobuf'')],
      response_body stats_pb]"
  by (simp add: new_send_def response_start_def body_event_def translate_example send_def
      rewrite_headers_def length_stats_pb str_7 lower_def lower_byte_def char_of_def
      bit_Suc_0_iff)

subsection \<open>C10: a classroom without students\<close>

text \<open>
  C10. For every classroom whose list of students is empty, the endpoint raises
  \<^verbatim>\<open>ZeroDivisionError\<close> and returns no statistics: the sum of the grades is divided by the
  number of students, which is zero.
\<close>

theorem C10_empty_classroom_raises:
  "students classroom = [] \<Longrightarrow> summarize_classroom F classroom = Inl ZeroDivisionError"
  by (simp add: summarize_classroom_def truediv_def)

theorem C10_empty_classroom_raises_witness:
  "students \<lparr>profile = ''Math'', students = []\<rparr> = [] \<and>
   summarize_classroom real_ops \<lparr>profile = ''Math'', students = []\<rparr> = Inl ZeroDivisionError"
  using C10_empty_classroom_raises [of "\<lparr>profile = ''Math'', students = []\<rparr>" real_ops] by simp

end
